theory Spec2Isabelle
  imports Complex_Main
begin

section \<open>Maya camera tools: frustum, field of view, resolution, clipping\<close>

text \<open>
  A shallow embedding of \<^verbatim>\<open>maya_camera_tools.py\<close>.

  \<^item> Python floats are modelled as \<^typ>\<open>real\<close>: arithmetic is exact, rounding, overflow,
    infinities and NaN are outside the model. \<^verbatim>\<open>math.atan\<close> is \<^const>\<open>arctan\<close>.
    The one place where the last bit of a float decides an integer result, the quotients
    that \<^verbatim>\<open>get_camera_resolution_fov_ratio\<close> compares and truncates, has a second model
    with double-precision division.
  \<^item> A division whose divisor is zero raises \<^verbatim>\<open>ZeroDivisionError\<close> in Python, for
    floats as for integers; every division of the source by a value that can be zero is
    therefore a \<open>py_div\<close>, and every function that so divides returns
    \<open>py_error + result\<close>.
  \<^item> The attribute queries \<^verbatim>\<open>cmds.camera(camera, query=True, ...)\<close> read one value each
    from the scene; the camera is the record of the queried attributes, under their Maya
    names. The render globals read by \<^verbatim>\<open>cmds.getAttr\<close> and
    \<^verbatim>\<open>cmds.listConnections\<close> are a second record.
\<close>

subsection \<open>Data\<close>

datatype py_error = ZeroDivisionError

record camera =
  aspectRatio :: real
  horizontalFilmAperture :: real
  verticalFilmAperture :: real
  horizontalFilmOffset :: real
  verticalFilmOffset :: real
  filmFitOffset :: real
  focalLength :: real
  nearClipPlane :: real
  cameraScale :: real
  overscan :: real
  filmFit :: string
  horizontalFieldOfView :: real

text \<open>
  \<open>resolutions\<close> is the list of resolution nodes connected to
  \<^verbatim>\<open>defaultRenderGlobals.resolution\<close>, each with its \<^verbatim>\<open>.width\<close> and \<^verbatim>\<open>.height\<close>.
\<close>

record render_globals =
  resolutions :: "(int \<times> int) list"
  ignoreFilmGate :: bool

type_synonym frustum = "real \<times> real \<times> real \<times> real"

subsection \<open>Python primitives\<close>

definition py_div :: "real \<Rightarrow> real \<Rightarrow> py_error + real" where
  "py_div a b = (if b = 0 then Inl ZeroDivisionError else Inr (a / b))"

text \<open>Sequencing: the first exception raised ends the computation.\<close>

definition py_bind :: "py_error + 'a \<Rightarrow> ('a \<Rightarrow> py_error + 'b) \<Rightarrow> py_error + 'b" where
  "py_bind m f = (case m of Inl e \<Rightarrow> Inl e | Inr v \<Rightarrow> f v)"

text \<open>\<^verbatim>\<open>int(x)\<close> of a float truncates towards zero.\<close>

definition py_int :: "real \<Rightarrow> int" where
  "py_int x = (if 0 \<le> x then \<lfloor>x\<rfloor> else \<lceil>x\<rceil>)"

text \<open>\<^verbatim>\<open>not v\<close> for a value that is \<^verbatim>\<open>None\<close> or an integer.\<close>

definition py_not :: "int option \<Rightarrow> bool" where
  "py_not v = (case v of None \<Rightarrow> True | Some n \<Rightarrow> n = 0)"

definition mm_to_inch :: real where
  "mm_to_inch = 3937007874 / 100000000000"

subsection \<open>compute_camera_viewing_frustum\<close>

text \<open>
  The branch on \<^verbatim>\<open>film_fit\<close> (source lines 29--56): the values of
  \<^verbatim>\<open>(scale_x, scale_y, translate_x, translate_y)\<close> after the \<^verbatim>\<open>if/elif\<close> chain. The chain
  has no \<^verbatim>\<open>else\<close>: any other string leaves the initial values.
\<close>

definition film_fit_scale :: "camera \<Rightarrow> real \<Rightarrow> py_error + (real \<times> real \<times> real \<times> real)" where
  "film_fit_scale cam window_aspect =
     (let film_aspect = aspectRatio cam;
          aperture_x = horizontalFilmAperture cam;
          aperture_y = verticalFilmAperture cam;
          film_fit_offset = filmFitOffset cam;
          scale_x = 1;
          scale_y = 1;
          translate_x = 0;
          translate_y = 0;
          film_fit = filmFit cam
      in if film_fit = ''fill'' then
           (if window_aspect < film_aspect then
              py_bind (py_div window_aspect film_aspect) (\<lambda>scale_x.
                Inr (scale_x, scale_y, translate_x, translate_y))
            else
              py_bind (py_div film_aspect window_aspect) (\<lambda>scale_y.
                Inr (scale_x, scale_y, translate_x, translate_y)))
         else if film_fit = ''horizontal'' then
           py_bind (py_div film_aspect window_aspect) (\<lambda>scale_y.
             if scale_y > 1 then
               Inr (scale_x, scale_y, translate_x,
                    film_fit_offset * (aperture_y - (aperture_y * scale_y)) / 2)
             else Inr (scale_x, scale_y, translate_x, translate_y))
         else if film_fit = ''vertical'' then
           py_bind (py_div window_aspect film_aspect) (\<lambda>scale_x.
             if scale_x > 1 then
               Inr (scale_x, scale_y,
                    film_fit_offset * (aperture_x - (aperture_x * scale_x)) / 2, translate_y)
             else Inr (scale_x, scale_y, translate_x, translate_y))
         else if film_fit = ''overscan'' then
           (if window_aspect < film_aspect then
              py_bind (py_div film_aspect window_aspect) (\<lambda>scale_y.
                Inr (scale_x, scale_y, translate_x, translate_y))
            else
              py_bind (py_div window_aspect film_aspect) (\<lambda>scale_x.
                Inr (scale_x, scale_y, translate_x, translate_y)))
         else Inr (scale_x, scale_y, translate_x, translate_y))"

text \<open>
  The whole function: \<^verbatim>\<open>focal_to_near\<close> first (the division by the focal length in
  inches can raise), then the fit branch, the optional overscan, and the rectangle
  \<^verbatim>\<open>(left, right, bottom, top)\<close>.
\<close>

definition compute_camera_viewing_frustum :: "camera \<Rightarrow> real \<Rightarrow> bool \<Rightarrow> py_error + frustum" where
  "compute_camera_viewing_frustum cam window_aspect apply_overscan =
     (let aperture_x = horizontalFilmAperture cam;
          aperture_y = verticalFilmAperture cam;
          offset_x = horizontalFilmOffset cam;
          offset_y = verticalFilmOffset cam;
          focal_len_inch = focalLength cam * mm_to_inch
      in py_bind (py_div (nearClipPlane cam) focal_len_inch) (\<lambda>q.
           let focal_to_near = q * cameraScale cam
           in py_bind (film_fit_scale cam window_aspect) (\<lambda>(sx, sy, translate_x, translate_y).
                let scale_x = (if apply_overscan then sx * overscan cam else sx);
                    scale_y = (if apply_overscan then sy * overscan cam else sy);
                    left = focal_to_near * (- (1/2) * aperture_x * scale_x + offset_x + translate_x);
                    right = focal_to_near * ((1/2) * aperture_x * scale_x + offset_x + translate_x);
                    bottom = focal_to_near * (- (1/2) * aperture_y * scale_y + offset_y + translate_y);
                    top = focal_to_near * ((1/2) * aperture_y * scale_y + offset_y + translate_y)
                in Inr (left, right, bottom, top))))"

subsection \<open>get_camera_port_field_of_view\<close>

definition get_camera_port_field_of_view :: "camera \<Rightarrow> real \<Rightarrow> real \<Rightarrow> py_error + (real \<times> real)" where
  "get_camera_port_field_of_view cam port_width port_height =
     py_bind (py_div port_width port_height) (\<lambda>window_aspect.
     py_bind (compute_camera_viewing_frustum cam window_aspect False) (\<lambda>(left, right, bottom, top).
       let near = nearClipPlane cam
       in py_bind (py_div ((right - left) * (1/2)) near) (\<lambda>h.
          py_bind (py_div ((top - bottom) * (1/2)) near) (\<lambda>v.
            Inr (arctan h * 2, arctan v * 2)))))"

subsection \<open>Render globals\<close>

definition get_render_image_resolution :: "render_globals \<Rightarrow> int option \<times> int option" where
  "get_render_image_resolution g =
     (case resolutions g of
        [] \<Rightarrow> (None, None)
      | r # _ \<Rightarrow> (Some (fst r), Some (snd r)))"

definition will_render_ignore_film_gate :: "render_globals \<Rightarrow> bool" where
  "will_render_ignore_film_gate g = ignoreFilmGate g"

subsection \<open>get_camera_resolution_fov_ratio\<close>

text \<open>
  Source lines 124--127: the resolution the function works on, \<^verbatim>\<open>(320, 240)\<close> when the
  retrieved width or height is falsy.
\<close>

definition render_resolution_or_default :: "render_globals \<Rightarrow> int \<times> int" where
  "render_resolution_or_default g =
     (case get_render_image_resolution g of
        (cam_width, cam_height) \<Rightarrow>
          if py_not cam_width \<or> py_not cam_height then (320, 240)
          else (the cam_width, the cam_height))"

text \<open>
  The two lines \<^verbatim>\<open>hfov, vfov = get_camera_port_field_of_view(camera, w, h)\<close> and
  \<^verbatim>\<open>fov_ratio = hfov / vfov\<close>, which the source repeats in every branch that probes.
\<close>

definition port_fov_ratio :: "camera \<Rightarrow> real \<Rightarrow> real \<Rightarrow> py_error + real" where
  "port_fov_ratio cam port_width port_height =
     py_bind (get_camera_port_field_of_view cam port_width port_height) (\<lambda>(hfov, vfov).
       py_div hfov vfov)"

definition get_camera_resolution_fov_ratio ::
    "render_globals \<Rightarrow> camera \<Rightarrow> py_error + (int \<times> int \<times> real)" where
  "get_camera_resolution_fov_ratio g cam =
     (let fov_ratio = 1;
          ignore_film_gate = will_render_ignore_film_gate g;
          (cam_width, cam_height) = render_resolution_or_default g;
          aperture_x = horizontalFilmAperture cam;
          aperture_y = verticalFilmAperture cam;
          film_fit = filmFit cam
      in if film_fit = ''horizontal'' then
           (if \<not> ignore_film_gate then
              py_bind (py_div aperture_x aperture_y) (\<lambda>ar.
              py_bind (py_div (of_int cam_width) ar) (\<lambda>new_height.
                let cam_height =
                      (if new_height < of_int cam_height then py_int new_height else cam_height)
                in py_bind (port_fov_ratio cam (of_int cam_width) (of_int cam_height)) (\<lambda>fov_ratio.
                     Inr (cam_width, cam_height, fov_ratio))))
            else
              py_bind (port_fov_ratio cam (of_int cam_width) (of_int cam_height)) (\<lambda>fov_ratio.
                Inr (cam_width, cam_height, fov_ratio)))
         else if film_fit = ''vertical'' then
           py_bind (py_div aperture_y aperture_x) (\<lambda>ar.
           py_bind (py_div (of_int cam_height) ar) (\<lambda>new_width.
             if new_width < of_int cam_width \<and> \<not> ignore_film_gate then
               Inr (py_int new_width, cam_height, 1)
             else if new_width < of_int cam_width \<and> ignore_film_gate then
               py_bind (port_fov_ratio cam new_width (of_int cam_height)) (\<lambda>fov_ratio.
                 Inr (cam_width, cam_height, fov_ratio))
             else if \<not> ignore_film_gate then
               py_bind (port_fov_ratio cam new_width (of_int cam_height)) (\<lambda>fov_ratio.
                 Inr (cam_width, cam_height, fov_ratio))
             else if ignore_film_gate then
               py_bind (port_fov_ratio cam new_width (of_int cam_height)) (\<lambda>fov_ratio.
                 Inr (cam_width, cam_height, fov_ratio))
             else Inr (cam_width, cam_height, fov_ratio)))
         else if film_fit = ''overscan'' then
           py_bind (py_div aperture_x aperture_y) (\<lambda>ar.
           py_bind (py_div (of_int cam_width) ar) (\<lambda>new_height.
           py_bind (py_div aperture_y aperture_x) (\<lambda>ar'.
           py_bind (py_div (of_int cam_height) ar') (\<lambda>new_width.
             if new_width < of_int cam_width then
               (if \<not> ignore_film_gate then
                  Inr (py_int new_width, cam_height, 1)
                else
                  py_bind (port_fov_ratio cam new_width (of_int cam_height)) (\<lambda>fov_ratio.
                    Inr (cam_width, cam_height, fov_ratio)))
             else
               (let cam_height = (if \<not> ignore_film_gate then py_int new_height else cam_height)
                in py_bind (port_fov_ratio cam (of_int cam_width) (of_int cam_height)) (\<lambda>fov_ratio.
                     Inr (cam_width, cam_height, fov_ratio)))))))
         else if film_fit = ''fill'' then
           py_bind (py_div aperture_y aperture_x) (\<lambda>ar.
           py_bind (py_div (of_int cam_height) ar) (\<lambda>new_width.
             py_bind (if new_width \<ge> of_int cam_width
                      then port_fov_ratio cam new_width (of_int cam_height)
                      else port_fov_ratio cam (of_int cam_width) (of_int cam_height)) (\<lambda>fov_ratio.
               Inr (cam_width, cam_height, fov_ratio))))
         else Inr (cam_width, cam_height, fov_ratio))"

subsection \<open>get_camera_field_of_view\<close>

definition get_camera_field_of_view :: "render_globals \<Rightarrow> camera \<Rightarrow> py_error + real" where
  "get_camera_field_of_view g cam =
     py_bind (get_camera_resolution_fov_ratio g cam) (\<lambda>(cam_width, cam_height, fov_ratio).
       py_div (horizontalFieldOfView cam) fov_ratio)"

subsection \<open>is_point_clipped\<close>

text \<open>
  The function only subtracts, halves and compares, so the model is written once for any
  ordered numeric type. At \<^typ>\<open>int\<close> the division is the floor division that Python 2
  performs on integers; at \<^typ>\<open>real\<close> it is the true division of Python 3 and of float
  arguments.
\<close>

definition is_point_clipped ::
    "'a::{linorder,minus,divide,numeral} \<Rightarrow> 'a \<Rightarrow> 'a \<times> 'a \<Rightarrow> 'a \<times> 'a \<Rightarrow> bool" where
  "is_point_clipped x y render_resolution camera_resolution =
     (let clipped = False;
          clipped =
            (if snd render_resolution \<noteq> snd camera_resolution then
               (let new_height = (snd render_resolution - snd camera_resolution) div 2
                in if y < new_height \<or> y \<ge> snd render_resolution - new_height
                   then True else clipped)
             else clipped);
          clipped =
            (if fst render_resolution \<noteq> fst camera_resolution then
               (let new_width = (fst render_resolution - fst camera_resolution) div 2
                in if x < new_width \<or> x \<ge> fst render_resolution - new_width
                   then True else clipped)
             else clipped)
      in clipped)"

subsection \<open>Double-precision division\<close>

text \<open>
  Where a quotient is compared strictly with an integer and truncated by \<^verbatim>\<open>int()\<close>, its
  last bit decides the result, and the exact quotient is not what the program has.
  \<open>fl64\<close> rounds a real to the nearest IEEE 754 double, ties to even: 53 significant bits,
  the exponent unbounded (no overflow, no subnormal numbers). A float division in Python
  is the exact quotient rounded once, or \<^verbatim>\<open>ZeroDivisionError\<close>.
\<close>

definition round_half_even :: "real \<Rightarrow> int" where
  "round_half_even x =
     (let f = \<lfloor>x\<rfloor>; d = x - of_int f
      in if d < 1/2 then f else if 1/2 < d then f + 1 else if even f then f else f + 1)"

definition fl64 :: "real \<Rightarrow> real" where
  "fl64 x =
     (if x = 0 then 0
      else let e = \<lfloor>log 2 \<bar>x\<bar>\<rfloor> - 52
           in of_int (round_half_even (x / 2 powr of_int e)) * 2 powr of_int e)"

text \<open>Division with the quotient rounded by \<open>rnd\<close>; \<open>rnd\<close> is \<open>fl64\<close> for the program as it
  runs, and the identity for exact arithmetic.\<close>

definition fl_div :: "(real \<Rightarrow> real) \<Rightarrow> real \<Rightarrow> real \<Rightarrow> py_error + real" where
  "fl_div rnd a b = (if b = 0 then Inl ZeroDivisionError else Inr (rnd (a / b)))"

text \<open>
  \<^verbatim>\<open>get_camera_resolution_fov_ratio\<close> once more, line by line as above, with the quotients
  of source lines 139, 147, 170, 171 and 189 rounded by \<open>rnd\<close>. These are the quotients
  that the function compares with the resolution and truncates. The angles of the probe
  and their ratio stay exact reals.
\<close>

definition get_camera_resolution_fov_ratio_fl ::
    "(real \<Rightarrow> real) \<Rightarrow> render_globals \<Rightarrow> camera \<Rightarrow> py_error + (int \<times> int \<times> real)" where
  "get_camera_resolution_fov_ratio_fl rnd g cam =
     (let fov_ratio = 1;
          ignore_film_gate = will_render_ignore_film_gate g;
          (cam_width, cam_height) = render_resolution_or_default g;
          aperture_x = horizontalFilmAperture cam;
          aperture_y = verticalFilmAperture cam;
          film_fit = filmFit cam
      in if film_fit = ''horizontal'' then
           (if \<not> ignore_film_gate then
              py_bind (fl_div rnd aperture_x aperture_y) (\<lambda>ar.
              py_bind (fl_div rnd (of_int cam_width) ar) (\<lambda>new_height.
                let cam_height =
                      (if new_height < of_int cam_height then py_int new_height else cam_height)
                in py_bind (port_fov_ratio cam (of_int cam_width) (of_int cam_height)) (\<lambda>fov_ratio.
                     Inr (cam_width, cam_height, fov_ratio))))
            else
              py_bind (port_fov_ratio cam (of_int cam_width) (of_int cam_height)) (\<lambda>fov_ratio.
                Inr (cam_width, cam_height, fov_ratio)))
         else if film_fit = ''vertical'' then
           py_bind (fl_div rnd aperture_y aperture_x) (\<lambda>ar.
           py_bind (fl_div rnd (of_int cam_height) ar) (\<lambda>new_width.
             if new_width < of_int cam_width \<and> \<not> ignore_film_gate then
               Inr (py_int new_width, cam_height, 1)
             else if new_width < of_int cam_width \<and> ignore_film_gate then
               py_bind (port_fov_ratio cam new_width (of_int cam_height)) (\<lambda>fov_ratio.
                 Inr (cam_width, cam_height, fov_ratio))
             else if \<not> ignore_film_gate then
               py_bind (port_fov_ratio cam new_width (of_int cam_height)) (\<lambda>fov_ratio.
                 Inr (cam_width, cam_height, fov_ratio))
             else if ignore_film_gate then
               py_bind (port_fov_ratio cam new_width (of_int cam_height)) (\<lambda>fov_ratio.
                 Inr (cam_width, cam_height, fov_ratio))
             else Inr (cam_width, cam_height, fov_ratio)))
         else if film_fit = ''overscan'' then
           py_bind (fl_div rnd aperture_x aperture_y) (\<lambda>ar.
           py_bind (fl_div rnd (of_int cam_width) ar) (\<lambda>new_height.
           py_bind (fl_div rnd aperture_y aperture_x) (\<lambda>ar'.
           py_bind (fl_div rnd (of_int cam_height) ar') (\<lambda>new_width.
             if new_width < of_int cam_width then
               (if \<not> ignore_film_gate then
                  Inr (py_int new_width, cam_height, 1)
                else
                  py_bind (port_fov_ratio cam new_width (of_int cam_height)) (\<lambda>fov_ratio.
                    Inr (cam_width, cam_height, fov_ratio)))
             else
               (let cam_height = (if \<not> ignore_film_gate then py_int new_height else cam_height)
                in py_bind (port_fov_ratio cam (of_int cam_width) (of_int cam_height)) (\<lambda>fov_ratio.
                     Inr (cam_width, cam_height, fov_ratio)))))))
         else if film_fit = ''fill'' then
           py_bind (fl_div rnd aperture_y aperture_x) (\<lambda>ar.
           py_bind (fl_div rnd (of_int cam_height) ar) (\<lambda>new_width.
             py_bind (if new_width \<ge> of_int cam_width
                      then port_fov_ratio cam new_width (of_int cam_height)
                      else port_fov_ratio cam (of_int cam_width) (of_int cam_height)) (\<lambda>fov_ratio.
               Inr (cam_width, cam_height, fov_ratio))))
         else Inr (cam_width, cam_height, fov_ratio))"

subsection \<open>Notions used by the properties\<close>

text \<open>A call returns (raises nothing) and its result satisfies \<open>P\<close>.\<close>

definition returns :: "py_error + 'a \<Rightarrow> ('a \<Rightarrow> bool) \<Rightarrow> bool" where
  "returns m P = (case m of Inl e \<Rightarrow> False | Inr v \<Rightarrow> P v)"

text \<open>The two properties of a frustum rectangle \<open>(left, right, bottom, top)\<close> that the
  specification names: its sides are in order, and it is centred on the optical axis.\<close>

definition frustum_ordered :: "frustum \<Rightarrow> bool" where
  "frustum_ordered f = (case f of (l, r, b, t) \<Rightarrow> l < r \<and> b < t)"

definition frustum_symmetric :: "frustum \<Rightarrow> bool" where
  "frustum_symmetric f = (case f of (l, r, b, t) \<Rightarrow> l = - r \<and> b = - t)"

text \<open>The value of the local variable \<^verbatim>\<open>focal_to_near\<close> (source lines 25--27), defined
  when the focal length is not zero.\<close>

definition focal_to_near :: "camera \<Rightarrow> real" where
  "focal_to_near cam = nearClipPlane cam / (focalLength cam * mm_to_inch) * cameraScale cam"

text \<open>
  The "fill" rule of the resolution reconciler in the words of the specification (section
  4.3), for comparison with the source: \<open>new_width = cam_h * (aperture_y / aperture_x)\<close>,
  the probe at \<open>(new_width, cam_h)\<close> if \<open>new_width \<ge> cam_w\<close> and at \<open>(cam_w, cam_h)\<close>
  otherwise, the ratio horizontal / vertical of the probe, the resolution unchanged.
\<close>

definition reconcile_fill_spec :: "camera \<Rightarrow> int \<times> int \<Rightarrow> py_error + (int \<times> int \<times> real)" where
  "reconcile_fill_spec cam res =
     (case res of (cam_w, cam_h) \<Rightarrow>
        py_bind (py_div (verticalFilmAperture cam) (horizontalFilmAperture cam)) (\<lambda>ratio.
          let new_width = of_int cam_h * ratio
          in py_bind (if new_width \<ge> of_int cam_w
                      then port_fov_ratio cam new_width (of_int cam_h)
                      else port_fov_ratio cam (of_int cam_w) (of_int cam_h)) (\<lambda>fov_ratio.
               Inr (cam_w, cam_h, fov_ratio))))"

text \<open>
  The "vertical" rule in the words of the specification (section 4.3), for comparison with
  the source: \<open>new_width = cam_h * ar_x\<close> with \<open>ar_x = aperture_x / aperture_y\<close>; when
  \<open>new_width < cam_w\<close> and the gate is enforced the width is \<open>floor new_width\<close> and the
  ratio 1, otherwise the resolution is unchanged and the ratio is that of the probe at
  \<open>(new_width, cam_h)\<close>. The arithmetic is rounded by \<open>rnd\<close>.
\<close>

definition reconcile_vertical_spec ::
    "(real \<Rightarrow> real) \<Rightarrow> camera \<Rightarrow> bool \<Rightarrow> int \<times> int \<Rightarrow> py_error + (int \<times> int \<times> real)" where
  "reconcile_vertical_spec rnd cam ignore_film_gate res =
     (case res of (cam_w, cam_h) \<Rightarrow>
        py_bind (fl_div rnd (horizontalFilmAperture cam) (verticalFilmAperture cam)) (\<lambda>ar_x.
          let new_width = rnd (of_int cam_h * ar_x)
          in if new_width < of_int cam_w \<and> \<not> ignore_film_gate then
               Inr (\<lfloor>new_width\<rfloor>, cam_h, 1)
             else
               py_bind (port_fov_ratio cam new_width (of_int cam_h)) (\<lambda>fov_ratio.
                 Inr (cam_w, cam_h, fov_ratio))))"

subsection \<open>Sample scene\<close>

text \<open>
  A 1.5 : 1 film gate behind a 35 mm lens, and HD render globals with the film gate
  enforced; the concrete inputs of the examples below vary these two.
\<close>

definition cam35 :: camera where
  "cam35 = \<lparr>aspectRatio = 3/2, horizontalFilmAperture = 3/2, verticalFilmAperture = 1,
     horizontalFilmOffset = 0, verticalFilmOffset = 0, filmFitOffset = 1,
     focalLength = 35, nearClipPlane = 1/10, cameraScale = 1, overscan = 1,
     filmFit = ''fill'', horizontalFieldOfView = 57\<rparr>"

definition hd_globals :: render_globals where
  "hd_globals = \<lparr>resolutions = [(1920, 1080)], ignoreFilmGate = False\<rparr>"

text \<open>A 1.75 x 1.125 film gate (aspect 14 : 9), fit vertically.\<close>

definition cam_wide :: camera where
  "cam_wide = cam35\<lparr>aspectRatio := 14/9, horizontalFilmAperture := 7/4,
     verticalFilmAperture := 9/8, filmFit := ''vertical''\<rparr>"

section \<open>Properties\<close>

subsection \<open>Clipping\<close>

text \<open>
  C8. For every point, render resolution and camera resolution, \<open>is_point_clipped\<close> is
  true iff the vertical check fires (the heights differ and, with the margin
  \<open>(render_h - camera_h) / 2\<close>, \<open>y\<close> is below the margin or at least \<open>render_h\<close> minus the
  margin) or the horizontal check fires (the same with widths and \<open>x\<close>): two independent
  checks joined by "or". The point \<open>(0, 0)\<close> of a \<open>1920 x 1080\<close> render with a
  \<open>1620 x 1080\<close> camera is clipped, with integer and with float arithmetic.
\<close>

theorem is_point_clipped_iff:
  "(is_point_clipped x y (render_w, render_h) (camera_w, camera_h) \<longleftrightarrow>
      (render_h \<noteq> camera_h \<and>
         (y < (render_h - camera_h) div 2 \<or> y \<ge> render_h - (render_h - camera_h) div 2))
    \<or> (render_w \<noteq> camera_w \<and>
         (x < (render_w - camera_w) div 2 \<or> x \<ge> render_w - (render_w - camera_w) div 2)))
   \<and> is_point_clipped (0::int) 0 (1920, 1080) (1620, 1080)
   \<and> is_point_clipped (0::real) 0 (1920, 1080) (1620, 1080)"
  by (simp add: is_point_clipped_def Let_def)

theorem is_point_clipped_iff_witness:
  "\<not> is_point_clipped (960::int) 540 (1920, 1080) (1620, 1080)
   \<and> is_point_clipped (149::real) 540 (1920, 1080) (1621, 1080)
   \<and> \<not> is_point_clipped (149::int) 540 (1920, 1080) (1621, 1080)"
  using is_point_clipped_iff [of "960::int" 540 1920 1080 1620 1080]
    is_point_clipped_iff [of "149::real" 540 1920 1080 1621 1080]
    is_point_clipped_iff [of "149::int" 540 1920 1080 1621 1080]
  by simp

subsection \<open>The default resolution\<close>

text \<open>
  C10. The \<open>(320, 240)\<close> default replaces the render resolution not only when no resolution
  node is connected but also when the retrieved width or height is 0: the result of
  \<open>get_camera_resolution_fov_ratio\<close> is then the result for \<open>(320, 240)\<close>, so a resolution
  such as \<open>(0, 1080)\<close> is replaced as a whole, neither rejected nor partly kept.
\<close>

theorem zero_resolution_replaced_by_default:
  "get_camera_resolution_fov_ratio (g\<lparr>resolutions := []\<rparr>) cam =
     get_camera_resolution_fov_ratio (g\<lparr>resolutions := [(320, 240)]\<rparr>) cam
   \<and> get_camera_resolution_fov_ratio (g\<lparr>resolutions := (0, h) # rs\<rparr>) cam =
     get_camera_resolution_fov_ratio (g\<lparr>resolutions := [(320, 240)]\<rparr>) cam
   \<and> get_camera_resolution_fov_ratio (g\<lparr>resolutions := (w, 0) # rs\<rparr>) cam =
     get_camera_resolution_fov_ratio (g\<lparr>resolutions := [(320, 240)]\<rparr>) cam
   \<and> render_resolution_or_default (g\<lparr>resolutions := (0, 1080) # rs\<rparr>) = (320, 240)"
  by (simp add: get_camera_resolution_fov_ratio_def render_resolution_or_default_def
      get_render_image_resolution_def py_not_def will_render_ignore_film_gate_def)

subsection \<open>Fill and the film gate flag\<close>

text \<open>
  C9. With film fit "fill", the result of \<open>get_camera_resolution_fov_ratio\<close> does not depend
  on the ignore-film-gate flag: two runs that differ only in the flag return the same
  width, height and ratio (or fail alike).
\<close>

theorem fill_ignores_film_gate:
  assumes "filmFit cam = ''fill''"
  shows "get_camera_resolution_fov_ratio (g\<lparr>ignoreFilmGate := a\<rparr>) cam =
         get_camera_resolution_fov_ratio (g\<lparr>ignoreFilmGate := b\<rparr>) cam"
  using assms
  by (simp add: get_camera_resolution_fov_ratio_def render_resolution_or_default_def
      get_render_image_resolution_def will_render_ignore_film_gate_def)

theorem fill_ignores_film_gate_witness:
  "filmFit cam35 = ''fill''
   \<and> get_camera_resolution_fov_ratio (hd_globals\<lparr>ignoreFilmGate := True\<rparr>) cam35 =
     get_camera_resolution_fov_ratio (hd_globals\<lparr>ignoreFilmGate := False\<rparr>) cam35"
  using fill_ignores_film_gate [where cam = cam35 and g = hd_globals and a = True and b = False]
  by (simp add: cam35_def)

subsection \<open>Field of view\<close>

lemma film_fit_scale_overscan:
  "film_fit_scale (cam\<lparr>overscan := k\<rparr>) window_aspect = film_fit_scale cam window_aspect"
  by (simp add: film_fit_scale_def)

lemma frustum_without_overscan:
  "compute_camera_viewing_frustum (cam\<lparr>overscan := k\<rparr>) window_aspect False =
   compute_camera_viewing_frustum cam window_aspect False"
  by (simp add: compute_camera_viewing_frustum_def film_fit_scale_overscan)

text \<open>
  C7. \<open>get_camera_port_field_of_view\<close> fails with \<open>ZeroDivisionError\<close> when the height is 0.
  For a nonzero height it takes the frustum at window aspect \<open>width / height\<close> with
  \<open>apply_overscan = False\<close>, passes on a failure of that call, and otherwise returns
  \<open>2 * atan (((right - left) / 2) / near)\<close> and \<open>2 * atan (((top - bottom) / 2) / near)\<close>
  (the division by a zero near clip raises). The camera's overscan never affects the result.
\<close>

theorem port_field_of_view_spec:
  "get_camera_port_field_of_view cam width 0 = Inl ZeroDivisionError
   \<and> (height \<noteq> 0 \<longrightarrow>
        get_camera_port_field_of_view cam width height =
          (case compute_camera_viewing_frustum cam (width / height) False of
             Inl e \<Rightarrow> Inl e
           | Inr (l, r, b, t) \<Rightarrow>
               if nearClipPlane cam = 0 then Inl ZeroDivisionError
               else Inr (2 * arctan (((r - l) / 2) / nearClipPlane cam),
                         2 * arctan (((t - b) / 2) / nearClipPlane cam))))
   \<and> get_camera_port_field_of_view (cam\<lparr>overscan := k\<rparr>) width height =
       get_camera_port_field_of_view cam width height"
proof (intro conjI impI)
  show "get_camera_port_field_of_view cam width 0 = Inl ZeroDivisionError"
    by (simp add: get_camera_port_field_of_view_def py_div_def py_bind_def)
next
  assume "height \<noteq> 0"
  then show "get_camera_port_field_of_view cam width height =
          (case compute_camera_viewing_frustum cam (width / height) False of
             Inl e \<Rightarrow> Inl e
           | Inr (l, r, b, t) \<Rightarrow>
               if nearClipPlane cam = 0 then Inl ZeroDivisionError
               else Inr (2 * arctan (((r - l) / 2) / nearClipPlane cam),
                         2 * arctan (((t - b) / 2) / nearClipPlane cam)))"
    by (simp add: get_camera_port_field_of_view_def py_div_def py_bind_def Let_def
        split: sum.splits prod.splits)
next
  show "get_camera_port_field_of_view (cam\<lparr>overscan := k\<rparr>) width height =
       get_camera_port_field_of_view cam width height"
    by (simp add: get_camera_port_field_of_view_def frustum_without_overscan)
qed


theorem port_field_of_view_spec_witness:
  "get_camera_port_field_of_view cam35 1920 0 = Inl ZeroDivisionError
   \<and> (1080 \<noteq> (0::real)
      \<and> get_camera_port_field_of_view cam35 1620 1080 =
          Inr (2 * arctan (75000000000 / 137795275590), 2 * arctan (50000000000 / 137795275590)))
   \<and> get_camera_port_field_of_view (cam35\<lparr>overscan := 13/10\<rparr>) 1620 1080 =
       get_camera_port_field_of_view cam35 1620 1080"
  using port_field_of_view_spec [where cam = cam35 and width = 1620 and height = 1080 and k = "13/10"]
    port_field_of_view_spec [where cam = cam35 and width = 1920 and height = 1080 and k = "13/10"]
  apply (simp add: cam35_def compute_camera_viewing_frustum_def film_fit_scale_def py_div_def py_bind_def mm_to_inch_def)
  done


subsection \<open>Failures of the frustum computation\<close>

lemma frustum_eq:
  assumes "focalLength cam \<noteq> 0" "film_fit_scale cam wa = Inr (sx, sy, tx, ty)"
  shows "compute_camera_viewing_frustum cam wa ov =
     Inr (focal_to_near cam * (- (1/2) * horizontalFilmAperture cam * (if ov then sx * overscan cam else sx)
            + horizontalFilmOffset cam + tx),
          focal_to_near cam * ((1/2) * horizontalFilmAperture cam * (if ov then sx * overscan cam else sx)
            + horizontalFilmOffset cam + tx),
          focal_to_near cam * (- (1/2) * verticalFilmAperture cam * (if ov then sy * overscan cam else sy)
            + verticalFilmOffset cam + ty),
          focal_to_near cam * ((1/2) * verticalFilmAperture cam * (if ov then sy * overscan cam else sy)
            + verticalFilmOffset cam + ty))"
  using assms
  by (simp add: compute_camera_viewing_frustum_def focal_to_near_def py_div_def py_bind_def
      mm_to_inch_def Let_def)

lemma frustum_isl:
  "isl (compute_camera_viewing_frustum cam wa ov) \<longleftrightarrow>
     focalLength cam = 0 \<or> isl (film_fit_scale cam wa)"
  by (simp add: compute_camera_viewing_frustum_def py_div_def py_bind_def mm_to_inch_def Let_def
      split: sum.splits prod.splits)

lemma film_fit_scale_isl:
  "isl (film_fit_scale cam wa) \<longleftrightarrow>
      (filmFit cam = ''fill'' \<and> (if wa < aspectRatio cam then aspectRatio cam = 0 else wa = 0))
    \<or> (filmFit cam = ''horizontal'' \<and> wa = 0)
    \<or> (filmFit cam = ''vertical'' \<and> aspectRatio cam = 0)
    \<or> (filmFit cam = ''overscan'' \<and> (if wa < aspectRatio cam then wa = 0 else aspectRatio cam = 0))"
  by (simp add: film_fit_scale_def py_div_def py_bind_def Let_def)

lemma film_fit_scale_unknown:
  "filmFit cam \<notin> {''fill'', ''horizontal'', ''vertical'', ''overscan''} \<Longrightarrow>
   film_fit_scale cam wa = Inr (1, 1, 0, 0)"
  by (simp add: film_fit_scale_def)

text \<open>
  C2 (as amended). \<open>compute_camera_viewing_frustum\<close> validates nothing. It fails, with
  \<open>ZeroDivisionError\<close>, exactly when the focal length is 0 or the divisor of the fit
  branch taken (the film aspect or the window aspect) is 0; every other input returns a
  rectangle, whatever the signs of the apertures, near clip, camera scale and window
  aspect. A film fit outside the four known names is no error: the scales stay 1 and the
  translations 0, and \<open>get_camera_resolution_fov_ratio\<close> returns the render resolution
  with ratio 1.
\<close>

theorem frustum_fails_only_by_zero_division:
  "(isl (compute_camera_viewing_frustum cam wa ov) \<longleftrightarrow>
      focalLength cam = 0
    \<or> (filmFit cam = ''fill'' \<and> (if wa < aspectRatio cam then aspectRatio cam = 0 else wa = 0))
    \<or> (filmFit cam = ''horizontal'' \<and> wa = 0)
    \<or> (filmFit cam = ''vertical'' \<and> aspectRatio cam = 0)
    \<or> (filmFit cam = ''overscan'' \<and> (if wa < aspectRatio cam then wa = 0 else aspectRatio cam = 0)))
   \<and> (filmFit cam \<notin> {''fill'', ''horizontal'', ''vertical'', ''overscan''} \<and> focalLength cam \<noteq> 0 \<longrightarrow>
        compute_camera_viewing_frustum cam wa False =
          Inr (focal_to_near cam * (- (1/2) * horizontalFilmAperture cam + horizontalFilmOffset cam),
               focal_to_near cam * ((1/2) * horizontalFilmAperture cam + horizontalFilmOffset cam),
               focal_to_near cam * (- (1/2) * verticalFilmAperture cam + verticalFilmOffset cam),
               focal_to_near cam * ((1/2) * verticalFilmAperture cam + verticalFilmOffset cam)))
   \<and> (filmFit cam \<notin> {''fill'', ''horizontal'', ''vertical'', ''overscan''} \<longrightarrow>
        get_camera_resolution_fov_ratio g cam =
          Inr (fst (render_resolution_or_default g), snd (render_resolution_or_default g), 1))"
proof (intro conjI impI)
  show "isl (compute_camera_viewing_frustum cam wa ov) \<longleftrightarrow>
      focalLength cam = 0
    \<or> (filmFit cam = ''fill'' \<and> (if wa < aspectRatio cam then aspectRatio cam = 0 else wa = 0))
    \<or> (filmFit cam = ''horizontal'' \<and> wa = 0)
    \<or> (filmFit cam = ''vertical'' \<and> aspectRatio cam = 0)
    \<or> (filmFit cam = ''overscan'' \<and> (if wa < aspectRatio cam then wa = 0 else aspectRatio cam = 0))"
    unfolding frustum_isl film_fit_scale_isl by (rule refl)
next
  assume a: "filmFit cam \<notin> {''fill'', ''horizontal'', ''vertical'', ''overscan''} \<and> focalLength cam \<noteq> 0"
  then have "film_fit_scale cam wa = Inr (1, 1, 0, 0)"
    by (simp add: film_fit_scale_unknown)
  with a show "compute_camera_viewing_frustum cam wa False =
          Inr (focal_to_near cam * (- (1/2) * horizontalFilmAperture cam + horizontalFilmOffset cam),
               focal_to_near cam * ((1/2) * horizontalFilmAperture cam + horizontalFilmOffset cam),
               focal_to_near cam * (- (1/2) * verticalFilmAperture cam + verticalFilmOffset cam),
               focal_to_near cam * ((1/2) * verticalFilmAperture cam + verticalFilmOffset cam))"
    by (simp add: frustum_eq [where sx = 1 and sy = 1 and tx = 0 and ty = 0])
next
  assume "filmFit cam \<notin> {''fill'', ''horizontal'', ''vertical'', ''overscan''}"
  then show "get_camera_resolution_fov_ratio g cam =
          Inr (fst (render_resolution_or_default g), snd (render_resolution_or_default g), 1)"
    by (simp add: get_camera_resolution_fov_ratio_def Let_def split: prod.splits)
qed

theorem frustum_fails_only_by_zero_division_witness:
  "isl (compute_camera_viewing_frustum (cam35\<lparr>focalLength := 0\<rparr>) (16/9) False)
   \<and> isl (compute_camera_viewing_frustum (cam35\<lparr>filmFit := ''horizontal''\<rparr>) 0 False)
   \<and> \<not> isl (compute_camera_viewing_frustum (cam35\<lparr>horizontalFilmAperture := - 1\<rparr>) (16/9) False)
   \<and> compute_camera_viewing_frustum
        (cam35\<lparr>filmFit := ''bogus'', focalLength := 100000000000 / 3937007874\<rparr>) (16/9) False =
        Inr (- (3 / 40), 3 / 40, - (1 / 20), 1 / 20)
   \<and> get_camera_resolution_fov_ratio hd_globals (cam35\<lparr>filmFit := ''bogus''\<rparr>) = Inr (1920, 1080, 1)"
  using frustum_fails_only_by_zero_division
          [where cam = "cam35\<lparr>focalLength := 0\<rparr>" and wa = "16/9" and ov = False]
    frustum_fails_only_by_zero_division
          [where cam = "cam35\<lparr>filmFit := ''horizontal''\<rparr>" and wa = 0 and ov = False]
    frustum_fails_only_by_zero_division
          [where cam = "cam35\<lparr>horizontalFilmAperture := - 1\<rparr>" and wa = "16/9" and ov = False]
    frustum_fails_only_by_zero_division
          [where cam = "cam35\<lparr>filmFit := ''bogus'', focalLength := 100000000000 / 3937007874\<rparr>"
             and wa = "16/9" and g = hd_globals]
    frustum_fails_only_by_zero_division
          [where cam = "cam35\<lparr>filmFit := ''bogus''\<rparr>" and g = hd_globals]
  by (simp add: cam35_def hd_globals_def focal_to_near_def mm_to_inch_def
      render_resolution_or_default_def get_render_image_resolution_def py_not_def)

text \<open>
  C2 as stated fails: a camera whose apertures, near clip, camera scale and focal length
  are all non-positive, at a negative window aspect, gets a rectangle, and so does a
  camera with an unknown film fit.
\<close>

theorem frustum_validation_counterexample:
  "\<not> isl (compute_camera_viewing_frustum
        (cam35\<lparr>horizontalFilmAperture := - 1, verticalFilmAperture := 0, nearClipPlane := 0,
               cameraScale := - 1, focalLength := - 35\<rparr>) (- 2) False)
   \<and> \<not> isl (compute_camera_viewing_frustum (cam35\<lparr>filmFit := ''bogus''\<rparr>) (16/9) False)"
  by (simp add: frustum_isl film_fit_scale_isl cam35_def)

subsection \<open>Order of the frustum's sides\<close>

lemma film_fit_scale_positive:
  assumes "0 < aspectRatio cam" "0 < wa"
  shows "returns (film_fit_scale cam wa) (\<lambda>(sx, sy, tx, ty). 0 < sx \<and> 0 < sy)"
  using assms by (simp add: film_fit_scale_def py_div_def py_bind_def returns_def Let_def)

lemma focal_to_near_positive:
  assumes "0 < focalLength cam" "0 < nearClipPlane cam" "0 < cameraScale cam"
  shows "0 < focal_to_near cam"
  using assms by (simp add: focal_to_near_def mm_to_inch_def)

lemma side_order:
  fixes k a s c :: real
  assumes "0 < k" "0 < a" "0 < s"
  shows "k * (- (1/2) * a * s + c) < k * ((1/2) * a * s + c)"
proof -
  have "0 < a * s" using assms by simp
  then have "- (1/2) * a * s + c < (1/2) * a * s + c" by simp
  with \<open>0 < k\<close> show ?thesis by (simp only: mult_less_cancel_left_pos)
qed

text \<open>
  C3 (as amended). When the apertures, the focal length, the near clip, the camera scale,
  the film aspect and the window aspect are all positive, and the overscan is positive
  whenever it is applied, \<open>compute_camera_viewing_frustum\<close> returns a rectangle with
  \<open>left < right\<close> and \<open>bottom < top\<close>, in every fit mode and for both values of
  \<open>apply_overscan\<close>.
\<close>

theorem frustum_ordered_for_valid_camera:
  assumes "0 < horizontalFilmAperture cam" "0 < verticalFilmAperture cam"
    and "0 < focalLength cam" "0 < nearClipPlane cam" "0 < cameraScale cam"
    and "0 < aspectRatio cam" "0 < wa"
    and "ov \<longrightarrow> 0 < overscan cam"
  shows "returns (compute_camera_viewing_frustum cam wa ov) frustum_ordered"
proof -
  obtain sx sy tx ty where fit: "film_fit_scale cam wa = Inr (sx, sy, tx, ty)"
    and sx: "0 < sx" and sy: "0 < sy"
    using film_fit_scale_positive [OF assms(6,7)]
    by (auto simp: returns_def split: sum.splits)
  have k: "0 < focal_to_near cam"
    using assms(3-5) by (rule focal_to_near_positive)
  have sx': "0 < (if ov then sx * overscan cam else sx)"
    using sx assms(8) by simp
  have sy': "0 < (if ov then sy * overscan cam else sy)"
    using sy assms(8) by simp
  have f: "focalLength cam \<noteq> 0" using assms(3) by simp
  have "frustum_ordered
     (focal_to_near cam * (- (1/2) * horizontalFilmAperture cam * (if ov then sx * overscan cam else sx)
            + horizontalFilmOffset cam + tx),
      focal_to_near cam * ((1/2) * horizontalFilmAperture cam * (if ov then sx * overscan cam else sx)
            + horizontalFilmOffset cam + tx),
      focal_to_near cam * (- (1/2) * verticalFilmAperture cam * (if ov then sy * overscan cam else sy)
            + verticalFilmOffset cam + ty),
      focal_to_near cam * ((1/2) * verticalFilmAperture cam * (if ov then sy * overscan cam else sy)
            + verticalFilmOffset cam + ty))"
    unfolding frustum_ordered_def prod.case add.assoc
    using side_order [OF k assms(1) sx'] side_order [OF k assms(2) sy']
    by blast
  then show ?thesis
    unfolding frustum_eq [OF f fit] returns_def by simp
qed

theorem frustum_ordered_for_valid_camera_witness:
  "returns (compute_camera_viewing_frustum cam35 (16/9) False) frustum_ordered
   \<and> returns (compute_camera_viewing_frustum (cam35\<lparr>filmFit := ''vertical'', overscan := 13/10\<rparr>) (16/9) True)
        frustum_ordered"
  using frustum_ordered_for_valid_camera [where cam = cam35 and wa = "16/9" and ov = False]
    frustum_ordered_for_valid_camera
      [where cam = "cam35\<lparr>filmFit := ''vertical'', overscan := 13/10\<rparr>" and wa = "16/9" and ov = True]
  by (simp add: cam35_def)

text \<open>
  C3 as stated fails: an overscan of 0 is allowed by the data model, and applying it
  collapses the rectangle of an otherwise valid camera to a point.
\<close>

theorem frustum_ordered_counterexample:
  "compute_camera_viewing_frustum (cam35\<lparr>overscan := 0\<rparr>) (3/2) True = Inr (0, 0, 0, 0)
   \<and> \<not> frustum_ordered (0, 0, 0, 0)"
  by (simp add: compute_camera_viewing_frustum_def film_fit_scale_def py_div_def py_bind_def
      mm_to_inch_def cam35_def frustum_ordered_def)

subsection \<open>Fill at the camera's own aspect\<close>

lemma film_fit_scale_fill_same_aspect:
  assumes "filmFit cam = ''fill''" "aspectRatio cam \<noteq> 0"
  shows "film_fit_scale cam (aspectRatio cam) = Inr (1, 1, 0, 0)"
  using assms by (simp add: film_fit_scale_def py_div_def py_bind_def)

text \<open>
  C4 (as amended). With film fit "fill" and a window aspect equal to the camera's film
  aspect (not zero, and a focal length not zero), the fit leaves \<open>scale_x = scale_y = 1\<close>
  and no translation, so the frustum is the film gate scaled by \<open>focal_to_near\<close> and
  shifted by the film offsets. It is symmetric, \<open>left = - right\<close> and \<open>bottom = - top\<close>,
  when both film offsets are 0, with or without overscan.
\<close>

theorem fill_same_aspect_frustum:
  assumes "filmFit cam = ''fill''" "wa = aspectRatio cam"
    and "aspectRatio cam \<noteq> 0" "focalLength cam \<noteq> 0"
  shows "film_fit_scale cam wa = Inr (1, 1, 0, 0)
    \<and> compute_camera_viewing_frustum cam wa False =
        Inr (focal_to_near cam * (- (1/2) * horizontalFilmAperture cam + horizontalFilmOffset cam),
             focal_to_near cam * ((1/2) * horizontalFilmAperture cam + horizontalFilmOffset cam),
             focal_to_near cam * (- (1/2) * verticalFilmAperture cam + verticalFilmOffset cam),
             focal_to_near cam * ((1/2) * verticalFilmAperture cam + verticalFilmOffset cam))
    \<and> (horizontalFilmOffset cam = 0 \<and> verticalFilmOffset cam = 0 \<longrightarrow>
         returns (compute_camera_viewing_frustum cam wa ov) frustum_symmetric)"
proof -
  have fit: "film_fit_scale cam wa = Inr (1, 1, 0, 0)"
    using assms(1-3) by (simp add: film_fit_scale_fill_same_aspect)
  show ?thesis
    unfolding frustum_eq [OF assms(4) fit]
    by (simp add: fit returns_def frustum_symmetric_def)
qed

theorem fill_same_aspect_frustum_witness:
  "film_fit_scale cam35 (3/2) = Inr (1, 1, 0, 0)
   \<and> returns (compute_camera_viewing_frustum cam35 (3/2) True) frustum_symmetric"
proof -
  have h: "filmFit cam35 = ''fill''" "(3/2::real) = aspectRatio cam35"
    "aspectRatio cam35 \<noteq> 0" "focalLength cam35 \<noteq> 0"
    "horizontalFilmOffset cam35 = 0 \<and> verticalFilmOffset cam35 = 0"
    by (simp_all add: cam35_def)
  from fill_same_aspect_frustum [OF h(1-4), of True] h(5) show ?thesis
    by blast
qed

text \<open>
  C4 as stated fails for a nonzero film offset: the rectangle is shifted off the axis.
\<close>

theorem fill_same_aspect_counterexample:
  "filmFit (cam35\<lparr>horizontalFilmOffset := 1\<rparr>) = ''fill''
   \<and> aspectRatio (cam35\<lparr>horizontalFilmOffset := 1\<rparr>) = 3/2
   \<and> \<not> isl (compute_camera_viewing_frustum (cam35\<lparr>horizontalFilmOffset := 1\<rparr>) (3/2) False)
   \<and> \<not> returns (compute_camera_viewing_frustum (cam35\<lparr>horizontalFilmOffset := 1\<rparr>) (3/2) False)
          frustum_symmetric"
  by (simp add: compute_camera_viewing_frustum_def film_fit_scale_def py_div_def py_bind_def
      mm_to_inch_def cam35_def frustum_symmetric_def returns_def)

subsection \<open>Resolution and field of view ratio: fill\<close>

lemma py_bind_Inr: "py_bind m f = Inr v \<longleftrightarrow> (\<exists>x. m = Inr x \<and> f x = Inr v)"
  by (cases m) (simp_all add: py_bind_def)

lemma py_int_le: "x \<le> of_int c \<Longrightarrow> py_int x \<le> c"
  by (simp add: py_int_def floor_le_iff ceiling_le_iff)

lemma py_int_floor: "0 \<le> x \<Longrightarrow> py_int x = \<lfloor>x\<rfloor>"
  by (simp add: py_int_def)

lemma div_by_inverse_ratio:
  fixes a b c :: real
  assumes "a \<noteq> 0" "b \<noteq> 0"
  shows "py_bind (py_div b a) (\<lambda>ar. py_bind (py_div c ar) f) = f (c * (a / b))"
  using assms by (simp add: py_div_def py_bind_def)

lemma port_fov_ratio_eq:
  "py_bind (port_fov_ratio cam w h) (\<lambda>fov_ratio. Inr (cw, ch, fov_ratio)) =
     (case get_camera_port_field_of_view cam w h of
        Inl e \<Rightarrow> Inl e
      | Inr (hfov, vfov) \<Rightarrow>
          if vfov = 0 then Inl ZeroDivisionError else Inr (cw, ch, hfov / vfov))"
  by (simp add: port_fov_ratio_def py_bind_def py_div_def split: sum.splits prod.splits)

lemma cam35_port_fov:
  "get_camera_port_field_of_view cam35 360 240 =
     Inr (arctan (25000000000 / 45931758530) * 2, arctan (50000000000 / 137795275590) * 2)"
  "get_camera_port_field_of_view cam35 320 240 =
     Inr (arctan (200000000000 / 413385826770) * 2, arctan (50000000000 / 137795275590) * 2)"
  by (simp_all add: get_camera_port_field_of_view_def compute_camera_viewing_frustum_def
      film_fit_scale_def py_div_def py_bind_def mm_to_inch_def cam35_def)

text \<open>
  C1 (as amended). With film fit "fill" and nonzero apertures, the probe width is
  \<open>new_width = cam_h / (aperture_y / aperture_x) = cam_h * (aperture_x / aperture_y)\<close>, the
  same aperture ratio as in the other modes. The field of view is probed at
  \<open>(new_width, cam_h)\<close> when \<open>new_width \<ge> cam_w\<close> and at \<open>(cam_w, cam_h)\<close> otherwise; the
  result is the unchanged resolution with the ratio horizontal / vertical of that probe
  (a failing probe or a zero vertical angle raises).
\<close>

theorem fill_probe_width:
  assumes "filmFit cam = ''fill''"
    and "horizontalFilmAperture cam \<noteq> 0" "verticalFilmAperture cam \<noteq> 0"
    and "render_resolution_or_default g = (cam_w, cam_h)"
  shows "get_camera_resolution_fov_ratio g cam =
     (let new_width = of_int cam_h * (horizontalFilmAperture cam / verticalFilmAperture cam);
          probe_width = (if new_width \<ge> of_int cam_w then new_width else of_int cam_w)
      in case get_camera_port_field_of_view cam probe_width (of_int cam_h) of
           Inl e \<Rightarrow> Inl e
         | Inr (hfov, vfov) \<Rightarrow>
             if vfov = 0 then Inl ZeroDivisionError else Inr (cam_w, cam_h, hfov / vfov))"
proof -
  have "get_camera_resolution_fov_ratio g cam =
      py_bind (py_div (verticalFilmAperture cam) (horizontalFilmAperture cam)) (\<lambda>ar.
      py_bind (py_div (of_int cam_h) ar) (\<lambda>new_width.
        py_bind (if new_width \<ge> of_int cam_w
                 then port_fov_ratio cam new_width (of_int cam_h)
                 else port_fov_ratio cam (of_int cam_w) (of_int cam_h)) (\<lambda>fov_ratio.
          Inr (cam_w, cam_h, fov_ratio))))"
    using assms(1,4) by (simp add: get_camera_resolution_fov_ratio_def)
  also have "\<dots> =
      py_bind (if of_int cam_h * (horizontalFilmAperture cam / verticalFilmAperture cam) \<ge> of_int cam_w
               then port_fov_ratio cam (of_int cam_h * (horizontalFilmAperture cam / verticalFilmAperture cam)) (of_int cam_h)
               else port_fov_ratio cam (of_int cam_w) (of_int cam_h)) (\<lambda>fov_ratio.
          Inr (cam_w, cam_h, fov_ratio))"
    using assms(2,3) by (rule div_by_inverse_ratio)
  finally show ?thesis
    by (simp add: Let_def port_fov_ratio_eq)
qed

theorem fill_probe_width_witness:
  "get_camera_resolution_fov_ratio (hd_globals\<lparr>resolutions := []\<rparr>) cam35 =
     Inr (320, 240, (arctan (25000000000 / 45931758530) * 2) / (arctan (50000000000 / 137795275590) * 2))"
proof -
  have h: "filmFit cam35 = ''fill''" "horizontalFilmAperture cam35 \<noteq> 0"
    "verticalFilmAperture cam35 \<noteq> 0"
    "render_resolution_or_default (hd_globals\<lparr>resolutions := []\<rparr>) = (320, 240)"
    by (simp_all add: cam35_def render_resolution_or_default_def
        get_render_image_resolution_def py_not_def)
  have a: "horizontalFilmAperture cam35 = 3/2" "verticalFilmAperture cam35 = 1"
    by (simp_all add: cam35_def)
  have nz: "arctan (50000000000 / 137795275590 :: real) \<noteq> 0"
    by (simp add: arctan_eq_zero_iff)
  show ?thesis
    unfolding fill_probe_width [OF h] a
    using nz by (simp add: cam35_port_fov)
qed

text \<open>
  C1 as stated fails: at the default resolution \<open>320 x 240\<close> the source probes the 1.5 : 1
  camera at width \<open>240 * 1.5 = 360\<close>, while the inverse ratio gives \<open>160 < 320\<close> and
  a probe at width 320, with another ratio.
\<close>

theorem fill_inverse_ratio_counterexample:
  "get_camera_resolution_fov_ratio (hd_globals\<lparr>resolutions := []\<rparr>) cam35 \<noteq>
     reconcile_fill_spec cam35 (render_resolution_or_default (hd_globals\<lparr>resolutions := []\<rparr>))"
proof -
  have r: "render_resolution_or_default (hd_globals\<lparr>resolutions := []\<rparr>) = (320, 240)"
    by (simp add: render_resolution_or_default_def get_render_image_resolution_def py_not_def)
  have a: "horizontalFilmAperture cam35 = 3/2" "verticalFilmAperture cam35 = 1"
    "filmFit cam35 = ''fill''"
    by (simp_all add: cam35_def)
  have nz: "arctan (50000000000 / 137795275590 :: real) \<noteq> 0"
    by (simp add: arctan_eq_zero_iff)
  have ne: "arctan (25000000000 / 45931758530 :: real) \<noteq> arctan (200000000000 / 413385826770)"
    by (simp add: arctan_eq_iff)
  have code: "get_camera_resolution_fov_ratio (hd_globals\<lparr>resolutions := []\<rparr>) cam35 =
     Inr (320, 240, (arctan (25000000000 / 45931758530) * 2) / (arctan (50000000000 / 137795275590) * 2))"
    using nz
    by (simp add: get_camera_resolution_fov_ratio_def r a port_fov_ratio_def cam35_port_fov
        py_div_def py_bind_def)
  have spec: "reconcile_fill_spec cam35 (320, 240) =
     Inr (320, 240, (arctan (200000000000 / 413385826770) * 2) / (arctan (50000000000 / 137795275590) * 2))"
    using nz
    by (simp add: reconcile_fill_spec_def a port_fov_ratio_def cam35_port_fov
        py_div_def py_bind_def)
  show ?thesis
    unfolding r code spec using nz ne by simp
qed

subsection \<open>Resolution and field of view ratio: vertical\<close>

lemma round_half_even_eq:
  assumes "of_int m - 1/2 < x" "x < of_int m + 1/2"
  shows "round_half_even x = m"
proof (cases "of_int m \<le> x")
  case True
  then have "\<lfloor>x\<rfloor> = m" using assms by (intro floor_unique) simp_all
  then show ?thesis using assms by (simp add: round_half_even_def)
next
  case False
  then have f: "\<lfloor>x\<rfloor> = m - 1" using assms by (intro floor_unique) simp_all
  have "1/2 < x - of_int (m - 1)" using assms by simp
  then show ?thesis unfolding round_half_even_def f Let_def by simp
qed

lemma round_half_even_ge_floor: "\<lfloor>x\<rfloor> \<le> round_half_even x"
  by (simp add: round_half_even_def Let_def)

lemma fl64_binade:
  fixes x :: real
  assumes "0 < x" "2 powr of_int k \<le> x" "x < 2 powr (of_int k + 1)"
  shows "fl64 x = of_int (round_half_even (x / 2 powr of_int (k - 52))) * 2 powr of_int (k - 52)"
proof -
  have "\<lfloor>log 2 x\<rfloor> = k"
    using assms by (simp add: floor_log_eq_powr_iff)
  then show ?thesis using assms(1) by (simp add: fl64_def)
qed

lemma fl64_pos:
  assumes "0 < x"
  shows "0 < fl64 x"
proof -
  define k where "k = \<lfloor>log 2 x\<rfloor>"
  have b: "2 powr of_int k \<le> x" "x < 2 powr (of_int k + 1)"
    using floor_log_eq_powr_iff [of x 2 k] assms by (simp_all add: k_def)
  have "(2::real) powr of_int (k - 52) \<le> 2 powr of_int k"
    by (simp add: powr_le_cancel_iff)
  with b(1) have "2 powr of_int (k - 52) \<le> x" by linarith
  then have "1 \<le> x / 2 powr of_int (k - 52)"
    by (simp add: pos_le_divide_eq)
  then have "1 \<le> \<lfloor>x / 2 powr of_int (k - 52)\<rfloor>" by (simp add: le_floor_iff)
  with round_half_even_ge_floor [of "x / 2 powr of_int (k - 52)"]
  have "0 < round_half_even (x / 2 powr of_int (k - 52))" by linarith
  then have "(0::real) < of_int (round_half_even (x / 2 powr of_int (k - 52))) * 2 powr of_int (k - 52)"
    by simp
  then show ?thesis unfolding fl64_binade [OF assms b] .
qed

lemma powr_int_nat: "(2::real) powr of_int (int n) = 2 ^ n"
  by (simp add: powr_realpow)

lemma powr_int_neg_nat: "(2::real) powr of_int (- int n) = 1 / 2 ^ n"
  by (simp add: powr_minus powr_realpow divide_inverse)

lemma fl64_large:
  fixes x :: real
  assumes "n \<le> 52" "2 ^ n \<le> x" "x < 2 ^ (n + 1)"
  shows "fl64 x = of_int (round_half_even (x * 2 ^ (52 - n))) / 2 ^ (52 - n)"
proof -
  have x: "0 < x" using assms(2) by (rule less_le_trans [rotated]) simp
  have b: "2 powr of_int (int n) \<le> x" "x < 2 powr (of_int (int n) + 1)"
    using assms(2,3) by (simp_all add: powr_realpow powr_add)
  have e: "int n - 52 = - int (52 - n)" using assms(1) by simp
  show ?thesis
    unfolding fl64_binade [OF x b] e powr_int_neg_nat by simp
qed

lemma fl64_small:
  fixes x :: real
  assumes "1 / 2 ^ n \<le> x" "x < 2 / 2 ^ n"
  shows "fl64 x = of_int (round_half_even (x * 2 ^ (52 + n))) / 2 ^ (52 + n)"
proof -
  have x: "0 < x" using assms(1) by (rule less_le_trans [rotated]) simp
  have b: "2 powr of_int (- int n) \<le> x" "x < 2 powr (of_int (- int n) + 1)"
    using assms unfolding powr_add powr_int_neg_nat by simp_all
  have e: "- int n - 52 = - int (52 + n)" by simp
  show ?thesis
    unfolding fl64_binade [OF x b] e powr_int_neg_nat by simp
qed

lemma fl64_9_14: "fl64 (9/14) = 5790342378047781 / 9007199254740992"
proof -
  have r: "round_half_even ((9/14) * 2 ^ (52 + 1)) = 5790342378047781"
    by (rule round_half_even_eq) simp_all
  have "fl64 (9/14) = of_int (round_half_even ((9/14) * 2 ^ (52 + 1))) / 2 ^ (52 + 1)"
    by (rule fl64_small) simp_all
  then show ?thesis unfolding r by simp
qed


lemma fl64_2_3: "fl64 (2/3) = 6004799503160661 / 9007199254740992"
proof -
  have r: "round_half_even ((2/3) * 2 ^ (52 + 1)) = 6004799503160661"
    by (rule round_half_even_eq) simp_all
  have "fl64 (2/3) = of_int (round_half_even ((2/3) * 2 ^ (52 + 1))) / 2 ^ (52 + 1)"
    by (rule fl64_small) simp_all
  then show ?thesis unfolding r by simp
qed

lemma fl64_14_9: "fl64 (14/9) = 7005599420354105 / 4503599627370496"
proof -
  have r: "round_half_even ((14/9) * 2 ^ (52 - 0)) = 7005599420354105"
    by (rule round_half_even_eq) simp_all
  have "fl64 (14/9) = of_int (round_half_even ((14/9) * 2 ^ (52 - 0))) / 2 ^ (52 - 0)"
    by (rule fl64_large) simp_all
  then show ?thesis unfolding r by simp
qed

lemma fl64_width_wide:
  "fl64 (1080 / (5790342378047781 / 9007199254740992)) = 7388718138654719 / 4398046511104"
proof -
  let ?x = "1080 / (5790342378047781 / 9007199254740992) :: real"
  have r: "round_half_even (?x * 2 ^ (52 - 10)) = 7388718138654719"
    by (rule round_half_even_eq) simp_all
  have "fl64 ?x = of_int (round_half_even (?x * 2 ^ (52 - 10))) / 2 ^ (52 - 10)"
    by (rule fl64_large) simp_all
  then show ?thesis unfolding r by simp
qed

lemma fl64_width_35:
  "fl64 (1080 / (6004799503160661 / 9007199254740992)) = 1620"
proof -
  let ?x = "1080 / (6004799503160661 / 9007199254740992) :: real"
  have r: "round_half_even (?x * 2 ^ (52 - 10)) = 7124835347988480"
    by (rule round_half_even_eq) simp_all
  have "fl64 ?x = of_int (round_half_even (?x * 2 ^ (52 - 10))) / 2 ^ (52 - 10)"
    by (rule fl64_large) simp_all
  then show ?thesis unfolding r by simp
qed

lemma fl64_width_spec:
  "fl64 (1080 * (7005599420354105 / 4503599627370496)) = 1680"
proof -
  let ?x = "1080 * (7005599420354105 / 4503599627370496) :: real"
  have r: "round_half_even (?x * 2 ^ (52 - 10)) = 7388718138654720"
    by (rule round_half_even_eq) simp_all
  have "fl64 ?x = of_int (round_half_even (?x * 2 ^ (52 - 10))) / 2 ^ (52 - 10)"
    by (rule fl64_large) simp_all
  then show ?thesis unfolding r by simp
qed

lemma hd_resolution: "render_resolution_or_default hd_globals = (1920, 1080)"
  by (simp add: hd_globals_def render_resolution_or_default_def
      get_render_image_resolution_def py_not_def)

lemma cam_wide_attrs:
  "filmFit cam_wide = ''vertical''"
  "horizontalFilmAperture cam_wide = 7/4" "verticalFilmAperture cam_wide = 9/8"
  by (simp_all add: cam_wide_def cam35_def)

lemma hd_gate: "ignoreFilmGate hd_globals = False"
  by (simp add: hd_globals_def)

lemma cam_wide_width: "fl64 (1080 / fl64 ((9/8) / (7/4))) = 7388718138654719 / 4398046511104"
proof -
  have "((9/8) / (7/4) :: real) = 9/14" by simp
  then show ?thesis
    by (simp only: fl64_9_14 fl64_width_wide)
qed

lemma cam_wide_width_spec: "fl64 (1080 * fl64 ((7/4) / (9/8))) = 1680"
proof -
  have "((7/4) / (9/8) :: real) = 14/9" by simp
  then show ?thesis
    by (simp only: fl64_14_9 fl64_width_spec)
qed

lemma cam35_width: "fl64 (1080 / fl64 (1 / (3/2))) = 1620"
proof -
  have "(1 / (3/2) :: real) = 2/3" by simp
  then show ?thesis
    by (simp only: fl64_2_3 fl64_width_35)
qed

lemma fl_div_exact: "fl_div (\<lambda>x. x) = py_div"
  by (simp add: fl_div_def py_div_def fun_eq_iff)

lemma exact_rounding_is_real_model:
  "get_camera_resolution_fov_ratio_fl (\<lambda>x. x) g cam = get_camera_resolution_fov_ratio g cam"
  unfolding get_camera_resolution_fov_ratio_fl_def get_camera_resolution_fov_ratio_def fl_div_exact
  by (rule refl)

text \<open>
  C5 (as amended). With film fit "vertical", positive apertures and a positive render
  height, let \<open>new_width\<close> be the value the source computes: the quotient
  \<open>cam_h / (aperture_y / aperture_x)\<close>, each of the two divisions rounded (by any rounding
  that keeps positive numbers positive: none, or to the nearest double). Exactly when
  \<open>new_width < cam_w\<close> and the film gate is enforced, the result is
  \<open>(floor new_width, cam_h, 1)\<close>; in the other three cases the width is the render width
  and the ratio is horizontal / vertical of the probe at \<open>(new_width, cam_h)\<close>. In doubles
  the 1.5 x 1 gate at \<open>1920 x 1080\<close> with the gate enforced gives \<open>(1620, 1080, 1)\<close>, and the
  1.75 x 1.125 gate gives \<open>(1679, 1080, 1)\<close>, at \<open>1920 x 1080\<close> and at \<open>1680 x 1080\<close>;
  with the gate ignored the 1.5 x 1 gate keeps the width 1920 and probes at width 1620.
\<close>

theorem vertical_cases_rounded:
  assumes "filmFit cam = ''vertical''"
    and "0 < horizontalFilmAperture cam" "0 < verticalFilmAperture cam"
    and "render_resolution_or_default g = (cam_w, cam_h)" "0 < cam_h"
    and rnd: "\<And>x. 0 < x \<Longrightarrow> 0 < rnd x"
  shows "get_camera_resolution_fov_ratio_fl rnd g cam =
     (let new_width =
            rnd (of_int cam_h / rnd (verticalFilmAperture cam / horizontalFilmAperture cam))
      in if new_width < of_int cam_w \<and> \<not> ignoreFilmGate g then Inr (\<lfloor>new_width\<rfloor>, cam_h, 1)
         else case get_camera_port_field_of_view cam new_width (of_int cam_h) of
                Inl e \<Rightarrow> Inl e
              | Inr (hfov, vfov) \<Rightarrow>
                  if vfov = 0 then Inl ZeroDivisionError else Inr (cam_w, cam_h, hfov / vfov))"
proof -
  let ?ar = "rnd (verticalFilmAperture cam / horizontalFilmAperture cam)"
  let ?nw = "rnd (of_int cam_h / ?ar)"
  have ar: "0 < ?ar" using assms(2,3) by (intro rnd) simp
  have pos: "0 < ?nw" using ar assms(5) by (intro rnd) simp
  then have pos': "0 \<le> ?nw" by simp
  have nz: "horizontalFilmAperture cam \<noteq> 0" "?ar \<noteq> 0"
    using assms(2) ar by simp_all
  have "get_camera_resolution_fov_ratio_fl rnd g cam =
      py_bind (fl_div rnd (verticalFilmAperture cam) (horizontalFilmAperture cam)) (\<lambda>ar.
      py_bind (fl_div rnd (of_int cam_h) ar) (\<lambda>new_width.
        if new_width < of_int cam_w \<and> \<not> ignoreFilmGate g then Inr (py_int new_width, cam_h, 1)
        else py_bind (port_fov_ratio cam new_width (of_int cam_h)) (\<lambda>fov_ratio.
               Inr (cam_w, cam_h, fov_ratio))))"
    using assms(1,4)
    by (cases "ignoreFilmGate g")
      (simp_all add: get_camera_resolution_fov_ratio_fl_def will_render_ignore_film_gate_def Let_def
         cong del: if_weak_cong)
  also have "\<dots> =
      (if ?nw < of_int cam_w \<and> \<not> ignoreFilmGate g then Inr (py_int ?nw, cam_h, 1)
       else py_bind (port_fov_ratio cam ?nw (of_int cam_h)) (\<lambda>fov_ratio.
               Inr (cam_w, cam_h, fov_ratio)))"
    using nz by (simp add: fl_div_def py_bind_def)
  finally show ?thesis
    unfolding Let_def py_int_floor [OF pos'] port_fov_ratio_eq .
qed

theorem vertical_cases_rounded_witness:
  "get_camera_resolution_fov_ratio_fl fl64 hd_globals (cam35\<lparr>filmFit := ''vertical''\<rparr>) =
     Inr (1620, 1080, 1)
   \<and> get_camera_resolution_fov_ratio_fl fl64 hd_globals cam_wide = Inr (1679, 1080, 1)
   \<and> get_camera_resolution_fov_ratio_fl fl64 (hd_globals\<lparr>resolutions := [(1680, 1080)]\<rparr>) cam_wide =
       Inr (1679, 1080, 1)
   \<and> get_camera_resolution_fov_ratio_fl fl64 (hd_globals\<lparr>ignoreFilmGate := True\<rparr>)
         (cam35\<lparr>filmFit := ''vertical''\<rparr>) =
       Inr (1920, 1080,
            arctan (25000000000 / 45931758530) * 2 / (arctan (50000000000 / 137795275590) * 2))"
proof -
  let ?cam = "cam35\<lparr>filmFit := ''vertical''\<rparr>"
  have h: "filmFit ?cam = ''vertical''"
    "0 < horizontalFilmAperture ?cam" "0 < verticalFilmAperture ?cam"
    by (simp_all add: cam35_def)
  have a: "horizontalFilmAperture ?cam = 3/2" "verticalFilmAperture ?cam = 1"
    by (simp_all add: cam35_def)
  have w: "filmFit cam_wide = ''vertical''"
    "0 < horizontalFilmAperture cam_wide" "0 < verticalFilmAperture cam_wide"
    by (simp_all add: cam_wide_attrs)
  have p: "(0::int) < 1080" by simp
  have 1: "get_camera_resolution_fov_ratio_fl fl64 hd_globals ?cam = Inr (1620, 1080, 1)"
    using vertical_cases_rounded [where rnd = fl64, OF h hd_resolution p fl64_pos]
    unfolding a of_int_numeral cam35_width Let_def hd_gate
    by simp
  have 2: "get_camera_resolution_fov_ratio_fl fl64 hd_globals cam_wide = Inr (1679, 1080, 1)"
    using vertical_cases_rounded [where rnd = fl64, OF w hd_resolution p fl64_pos]
    unfolding cam_wide_attrs of_int_numeral cam_wide_width Let_def hd_gate
    by simp
  have r: "render_resolution_or_default (hd_globals\<lparr>resolutions := [(1680, 1080)]\<rparr>) = (1680, 1080)"
    by (simp add: render_resolution_or_default_def get_render_image_resolution_def py_not_def)
  have g: "ignoreFilmGate (hd_globals\<lparr>resolutions := [(1680, 1080)]\<rparr>) = False"
    by (simp add: hd_globals_def)
  have 3: "get_camera_resolution_fov_ratio_fl fl64 (hd_globals\<lparr>resolutions := [(1680, 1080)]\<rparr>) cam_wide =
      Inr (1679, 1080, 1)"
    using vertical_cases_rounded [where rnd = fl64, OF w r p fl64_pos]
    unfolding cam_wide_attrs of_int_numeral cam_wide_width Let_def g
    by simp
  have r': "render_resolution_or_default (hd_globals\<lparr>ignoreFilmGate := True\<rparr>) = (1920, 1080)"
    by (simp add: hd_globals_def render_resolution_or_default_def
        get_render_image_resolution_def py_not_def)
  have g': "ignoreFilmGate (hd_globals\<lparr>ignoreFilmGate := True\<rparr>) = True"
    by simp
  have probe: "get_camera_port_field_of_view ?cam 1620 1080 =
     Inr (arctan (25000000000 / 45931758530) * 2, arctan (50000000000 / 137795275590) * 2)"
    by (simp add: get_camera_port_field_of_view_def compute_camera_viewing_frustum_def
      film_fit_scale_def py_div_def py_bind_def mm_to_inch_def cam35_def)
  have nz: "arctan (50000000000 / 137795275590 :: real) \<noteq> 0"
    by (simp add: arctan_eq_zero_iff)
  have 4: "get_camera_resolution_fov_ratio_fl fl64 (hd_globals\<lparr>ignoreFilmGate := True\<rparr>) ?cam =
       Inr (1920, 1080,
            arctan (25000000000 / 45931758530) * 2 / (arctan (50000000000 / 137795275590) * 2))"
    using vertical_cases_rounded [where rnd = fl64, OF h r' p fl64_pos] nz
    unfolding a of_int_numeral cam35_width Let_def g' probe
    by simp
  from 1 2 3 4 show ?thesis by simp
qed

text \<open>
  C5 as stated fails: it takes \<open>new_width = cam_h * (aperture_x / aperture_y)\<close>. For the
  1.75 x 1.125 gate at height 1080 that product is 1680, in doubles and exactly, while
  the source's quotient is the double just below 1680 and is truncated to 1679.
\<close>

theorem vertical_product_counterexample:
  "get_camera_resolution_fov_ratio_fl fl64 hd_globals cam_wide = Inr (1679, 1080, 1)
   \<and> reconcile_vertical_spec fl64 cam_wide (ignoreFilmGate hd_globals)
        (render_resolution_or_default hd_globals) = Inr (1680, 1080, 1)
   \<and> reconcile_vertical_spec id cam_wide (ignoreFilmGate hd_globals)
        (render_resolution_or_default hd_globals) = Inr (1680, 1080, 1)"
proof -
  have nz: "(7/4 :: real) \<noteq> 0" "(9/8 :: real) \<noteq> 0" "fl64 ((9/8) / (7/4)) \<noteq> 0"
    using fl64_pos [of "(9/8) / (7/4)"] by simp_all
  have g: "will_render_ignore_film_gate hd_globals = False"
    by (simp add: hd_globals_def will_render_ignore_film_gate_def)
  have 1: "get_camera_resolution_fov_ratio_fl fl64 hd_globals cam_wide = Inr (1679, 1080, 1)"
    unfolding get_camera_resolution_fov_ratio_fl_def hd_resolution g cam_wide_attrs Let_def
      prod.case fl_div_def py_bind_def
    using nz(3) by (simp add: cam_wide_width py_int_def del: divide_divide_eq_left divide_divide_eq_right times_divide_eq_left times_divide_eq_right)
  have 2: "reconcile_vertical_spec fl64 cam_wide False (1920, 1080) = Inr (1680, 1080, 1)"
    unfolding reconcile_vertical_spec_def cam_wide_attrs prod.case fl_div_def py_bind_def Let_def
    by (simp add: cam_wide_width_spec del: divide_divide_eq_left divide_divide_eq_right times_divide_eq_left times_divide_eq_right)
  have 3: "reconcile_vertical_spec id cam_wide False (1920, 1080) = Inr (1680, 1080, 1)"
    by (simp add: reconcile_vertical_spec_def cam_wide_attrs fl_div_def py_bind_def)
  show ?thesis unfolding hd_resolution hd_gate using 1 2 3 by simp
qed

subsection \<open>The camera resolution never exceeds the render resolution\<close>

lemma py_div_Inr: "py_div a b = Inr q \<longleftrightarrow> b \<noteq> 0 \<and> q = a / b"
  by (auto simp: py_div_def)

lemma py_int_le_less: "x < of_int c \<Longrightarrow> py_int x \<le> c"
  by (rule py_int_le) simp

lemma overscan_height:
  fixes w h ax ay :: real
  assumes nz: "ax \<noteq> 0" "ay \<noteq> 0"
    and ge: "\<not> h / (ay / ax) < w"
    and valid: "(0 < ax \<and> 0 < ay) \<or> (0 < w \<and> 0 < h)"
  shows "w / (ax / ay) \<le> h"
proof -
  define k where "k = ay / ax"
  have le: "w \<le> h / k" using ge by (simp add: k_def)
  have k: "0 < k"
    using valid
  proof
    assume "0 < ax \<and> 0 < ay"
    then show ?thesis by (simp add: k_def)
  next
    assume a: "0 < w \<and> 0 < h"
    with le have "0 < h / k" by linarith
    with a show ?thesis by (simp add: zero_less_divide_iff)
  qed
  have "w * k \<le> h" using le k by (simp add: pos_le_divide_eq)
  moreover have "w / (ax / ay) = w * k" using nz by (simp add: k_def)
  ultimately show ?thesis by simp
qed

lemma horizontal_within:
  assumes "filmFit cam = ''horizontal''"
    and "render_resolution_or_default g = (w, h)"
    and "get_camera_resolution_fov_ratio g cam = Inr (cw, ch, r)"
  shows "cw \<le> w \<and> ch \<le> h"
  using assms
  by (auto simp: get_camera_resolution_fov_ratio_def Let_def py_bind_Inr py_div_Inr
      intro: py_int_le_less split: if_splits)

lemma vertical_within:
  assumes "filmFit cam = ''vertical''"
    and "render_resolution_or_default g = (w, h)"
    and "get_camera_resolution_fov_ratio g cam = Inr (cw, ch, r)"
  shows "cw \<le> w \<and> ch \<le> h"
  using assms
  by (auto simp: get_camera_resolution_fov_ratio_def Let_def py_bind_Inr py_div_Inr
      intro: py_int_le_less split: if_splits)

lemma fill_within:
  assumes "filmFit cam = ''fill''"
    and "render_resolution_or_default g = (w, h)"
    and "get_camera_resolution_fov_ratio g cam = Inr (cw, ch, r)"
  shows "cw \<le> w \<and> ch \<le> h"
  using assms
  by (auto simp: get_camera_resolution_fov_ratio_def Let_def py_bind_Inr py_div_Inr
      split: if_splits)

lemma other_within:
  assumes "filmFit cam \<notin> {''fill'', ''horizontal'', ''vertical'', ''overscan''}"
    and "render_resolution_or_default g = (w, h)"
    and "get_camera_resolution_fov_ratio g cam = Inr (cw, ch, r)"
  shows "cw \<le> w \<and> ch \<le> h"
  using assms
  by (auto simp: get_camera_resolution_fov_ratio_def Let_def)

lemma overscan_within:
  assumes "filmFit cam = ''overscan''"
    and "render_resolution_or_default g = (w, h)"
    and valid: "(0 < horizontalFilmAperture cam \<and> 0 < verticalFilmAperture cam) \<or> (0 < w \<and> 0 < h)"
    and "get_camera_resolution_fov_ratio g cam = Inr (cw, ch, r)"
  shows "cw \<le> w \<and> ch \<le> h"
proof -
  let ?ax = "horizontalFilmAperture cam" and ?ay = "verticalFilmAperture cam"
  from valid have valid': "(0 < ?ax \<and> 0 < ?ay) \<or> (0 < real_of_int w \<and> 0 < real_of_int h)"
    by simp
  have nh: "py_int (real_of_int w / (?ax / ?ay)) \<le> h"
    if "?ax \<noteq> 0" "?ay \<noteq> 0" "\<not> real_of_int h / (?ay / ?ax) < real_of_int w"
    using overscan_height [OF that valid'] by (rule py_int_le)
  show ?thesis
    using assms(1,2,4) nh
    by (auto simp: get_camera_resolution_fov_ratio_def Let_def py_bind_Inr py_div_Inr
        intro: py_int_le_less split: if_splits)
qed

text \<open>
  C6. For every camera with positive apertures (or every positive resolution), every
  render resolution, with the \<open>(320, 240)\<close> default substituted where it applies, and
  both values of the ignore-film-gate flag: when \<open>get_camera_resolution_fov_ratio\<close>
  returns, the camera width is at most the render width and the camera height at most
  the render height, in every fit mode.
\<close>

theorem camera_resolution_within_render:
  assumes "(0 < horizontalFilmAperture cam \<and> 0 < verticalFilmAperture cam)
           \<or> (0 < fst (render_resolution_or_default g) \<and> 0 < snd (render_resolution_or_default g))"
    and "get_camera_resolution_fov_ratio g cam = Inr (cw, ch, r)"
  shows "cw \<le> fst (render_resolution_or_default g) \<and> ch \<le> snd (render_resolution_or_default g)"
proof -
  obtain w h where wh: "render_resolution_or_default g = (w, h)"
    by (cases "render_resolution_or_default g")
  consider "filmFit cam = ''horizontal''" | "filmFit cam = ''vertical''"
    | "filmFit cam = ''overscan''" | "filmFit cam = ''fill''"
    | "filmFit cam \<notin> {''fill'', ''horizontal'', ''vertical'', ''overscan''}"
    by auto
  then have "cw \<le> w \<and> ch \<le> h"
  proof cases
    case 1 then show ?thesis using wh assms(2) by (rule horizontal_within)
  next
    case 2 then show ?thesis using wh assms(2) by (rule vertical_within)
  next
    case 3
    from assms(1) have "(0 < horizontalFilmAperture cam \<and> 0 < verticalFilmAperture cam) \<or> (0 < w \<and> 0 < h)"
      by (simp add: wh)
    with 3 wh show ?thesis using assms(2) by (rule overscan_within)
  next
    case 4 then show ?thesis using wh assms(2) by (rule fill_within)
  next
    case 5 then show ?thesis using wh assms(2) by (rule other_within)
  qed
  then show ?thesis by (simp add: wh)
qed

theorem camera_resolution_within_render_witness:
  "get_camera_resolution_fov_ratio hd_globals (cam35\<lparr>filmFit := ''overscan''\<rparr>) = Inr (1620, 1080, 1)
   \<and> render_resolution_or_default hd_globals = (1920, 1080)
   \<and> (1620::int) \<le> 1920 \<and> (1080::int) \<le> 1080"
proof -
  have rr: "render_resolution_or_default hd_globals = (1920, 1080)"
    by (simp add: hd_globals_def render_resolution_or_default_def
        get_render_image_resolution_def py_not_def)
  have ig: "will_render_ignore_film_gate hd_globals = False"
    by (simp add: will_render_ignore_film_gate_def hd_globals_def)
  have v: "(0 < horizontalFilmAperture (cam35\<lparr>filmFit := ''overscan''\<rparr>)
            \<and> 0 < verticalFilmAperture (cam35\<lparr>filmFit := ''overscan''\<rparr>))
           \<or> (0 < fst (render_resolution_or_default hd_globals)
              \<and> 0 < snd (render_resolution_or_default hd_globals))"
    by (simp add: cam35_def)
  have res: "get_camera_resolution_fov_ratio hd_globals (cam35\<lparr>filmFit := ''overscan''\<rparr>) =
      Inr (1620, 1080, 1)"
    by (simp add: get_camera_resolution_fov_ratio_def rr ig cam35_def py_div_def py_bind_def
        py_int_def)
  from camera_resolution_within_render [OF v res] rr res show ?thesis
    by simp
qed

end
